theory Spec2Isabelle
  imports
    Complex_Main
    "HOL-Library.Sublist"
    "HOL-Library.List_Lexorder"
    "HOL-Library.Char_ord"
begin

section \<open>AWS cost calculator: price resolution, cost normalisation, cart and report\<close>

text \<open>
  A shallow embedding of the static-table ("bulk pricing") mode of the calculator:
  \<^item> \<open>bulk_pricing.py\<close>: the \<open>find_*_pricing\<close> methods of \<open>LivePricingScraper\<close>;
  \<^item> \<open>aws_pricing.py\<close>: the \<open>get_*_pricing\<close> dispatchers of \<open>AWSPricingClient\<close> on their
    \<open>use_bulk_pricing\<close> branch, \<open>format_s3_pricing_data\<close> and \<open>format_single_price\<close>;
  \<^item> \<open>app.py\<close>: the pricing and cart request handlers;
  \<^item> \<open>report_generator.py\<close>: \<open>generate_csv_report\<close>, as the sequence of rows it writes.

  Numbers. Prices and costs are Python floats in the source. They are modelled as exact
  rationals (\<^typ>\<open>rat\<close>): every statement below is about which arithmetic expression the
  code evaluates and on which table entry, not about binary rounding error; NaN and the
  infinities are outside the model. The source stores a price as \<open>str(price)\<close> and reads
  it back with \<open>float(...)\<close>; that round trip is the identity on floats, so the model
  keeps the number.

  Selectors (instance type, region, operating system, engine, deployment option, storage
  class, component) are strings, on which the resolver's dictionary lookups and string
  tests cannot raise; so the \<open>except\<close> branches of the \<open>find_*_pricing\<close> methods, which
  return the empty list, are never taken and each method returns its one record.
\<close>

subsection \<open>Python values and built-ins\<close>

datatype py_error = TypeError | ValueError

text \<open>
  A JSON value as \<open>request.get_json()\<close> delivers it in a field of the request body. The
  elements of a list and the members of an object are left out: \<open>float\<close> and \<open>int\<close>
  reject both whatever they hold.
\<close>

datatype json = JNull | JBool bool | JInt int | JFloat rat | JStr string | JList | JDict

text \<open>
  \<open>float(v)\<close> and \<open>int(v)\<close>. The conversion of a string is Python's own parser; it is a
  parameter (\<open>None\<close> where Python raises \<open>ValueError\<close>). \<open>int\<close> truncates a float
  towards zero. An integer too large for a float is outside the model.
\<close>

fun py_float :: "(string \<Rightarrow> rat option) \<Rightarrow> json \<Rightarrow> py_error + rat" where
  "py_float parse JNull = Inl TypeError"
| "py_float parse (JBool b) = Inr (if b then 1 else 0)"
| "py_float parse (JInt i) = Inr (of_int i)"
| "py_float parse (JFloat r) = Inr r"
| "py_float parse (JStr s) = (case parse s of None \<Rightarrow> Inl ValueError | Some r \<Rightarrow> Inr r)"
| "py_float parse JList = Inl TypeError"
| "py_float parse JDict = Inl TypeError"



text \<open>\<open>d.get(k, default)\<close> on a dictionary.\<close>

definition dict_get :: "('k \<rightharpoonup> 'v) \<Rightarrow> 'k \<Rightarrow> 'v \<Rightarrow> 'v" where
  "dict_get d k dflt = (case d k of None \<Rightarrow> dflt | Some v \<Rightarrow> v)"

text \<open>\<open>sub in s\<close> on strings: \<open>sub\<close> occurs in \<open>s\<close> as a contiguous substring.\<close>

fun str_in :: "string \<Rightarrow> string \<Rightarrow> bool" where
  "str_in sub [] = (sub = [])"
| "str_in sub (c # cs) = (prefix sub (c # cs) \<or> str_in sub cs)"

text \<open>\<open>s.replace(old, '')\<close> for a non-empty \<open>old\<close>: every occurrence, left to right.\<close>

function str_remove :: "string \<Rightarrow> string \<Rightarrow> string" where
  "str_remove old s =
     (if s = [] \<or> old = [] then s
      else if prefix old s then str_remove old (drop (length old) s)
      else hd s # str_remove old (tl s))"
  by pat_completeness auto
termination
  by (relation "measure (\<lambda>(old, s). length s)") auto

text \<open>\<open>str(n)\<close> for a natural number.\<close>

fun str_of_nat :: "nat \<Rightarrow> string" where
  "str_of_nat n =
     (if n < 10 then [char_of (48 + n)]
      else str_of_nat (n div 10) @ [char_of (48 + n mod 10)])"

text \<open>
  \<open>round(x, 2)\<close>: the nearest multiple of \<open>1/100\<close>, an exact tie going to the even
  hundredth.
\<close>

definition py_round2 :: "rat \<Rightarrow> rat" where
  "py_round2 x =
     (let y = x * 100; f = \<lfloor>y\<rfloor>; d = y - of_int f
      in of_int (if d < 1/2 then f else if 1/2 < d then f + 1
                 else if even f then f else f + 1) / 100)"

subsection \<open>The price table\<close>

text \<open>
  \<open>self.pricing_data\<close>: service \<open>\<rightarrow>\<close> region \<open>\<rightarrow>\<close> resource key \<open>\<rightarrow>\<close> attribute \<open>\<rightarrow>\<close> price.
  Every access to a service's table is \<open>self.pricing_data.get(service, {})\<close>, so an absent
  service is the empty table.
\<close>

record pricing_data =
  EC2 :: "string \<rightharpoonup> (string \<rightharpoonup> (string \<rightharpoonup> rat))"
  RDS :: "string \<rightharpoonup> (string \<rightharpoonup> (string \<rightharpoonup> (string \<rightharpoonup> rat)))"
  S3 :: "string \<rightharpoonup> (string \<rightharpoonup> rat)"
  VPC :: "string \<rightharpoonup> (string \<rightharpoonup> rat)"
  ALB :: "string \<rightharpoonup> rat"
  Route53 :: "string \<rightharpoonup> rat"

definition default_region :: string where
  "default_region = ''US East (N. Virginia)''"

text \<open>
  The entries of \<open>FALLBACK_PRICING\<close> the examples below read, as the source writes them:
  the T2 head of \<open>EC2_PRICING["US East (N. Virginia)"]\<close>, the T3 head of
  \<open>RDS_BASE_US_EAST\<close>, \<open>S3_BASE\<close>, \<open>VPC_BASE\<close>, \<open>ALB_BASE\<close> and the Route53 table.
\<close>

definition EC2_us_east_t2 :: "(string \<times> (string \<times> rat) list) list" where
  "EC2_us_east_t2 =
     [(''t2.nano'', [(''Linux'', 58/10000), (''Windows'', 104/10000)]),
      (''t2.micro'', [(''Linux'', 116/10000), (''Windows'', 162/10000)]),
      (''t2.small'', [(''Linux'', 23/1000), (''Windows'', 32/1000)]),
      (''t2.medium'', [(''Linux'', 464/10000), (''Windows'', 648/10000)]),
      (''t2.large'', [(''Linux'', 928/10000), (''Windows'', 1296/10000)]),
      (''t2.xlarge'', [(''Linux'', 1856/10000), (''Windows'', 2592/10000)]),
      (''t2.2xlarge'', [(''Linux'', 3712/10000), (''Windows'', 5184/10000)])]"

definition RDS_us_east_t3 :: "(string \<times> (string \<times> (string \<times> rat) list) list) list" where
  "RDS_us_east_t3 =
     [(''db.t3.nano'',
        [(''MySQL'', [(''Single-AZ'', 8/1000), (''Multi-AZ'', 16/1000)]),
         (''PostgreSQL'', [(''Single-AZ'', 8/1000), (''Multi-AZ'', 16/1000)]),
         (''MariaDB'', [(''Single-AZ'', 8/1000), (''Multi-AZ'', 16/1000)])]),
      (''db.t3.micro'',
        [(''MySQL'', [(''Single-AZ'', 17/1000), (''Multi-AZ'', 34/1000)]),
         (''PostgreSQL'', [(''Single-AZ'', 17/1000), (''Multi-AZ'', 34/1000)]),
         (''MariaDB'', [(''Single-AZ'', 17/1000), (''Multi-AZ'', 34/1000)])])]"

definition S3_BASE :: "(string \<times> rat) list" where
  "S3_BASE = [(''General Purpose'', 23/1000), (''Infrequent Access'', 125/10000),
              (''Archive'', 4/1000)]"

definition VPC_BASE :: "(string \<times> rat) list" where
  "VPC_BASE = [(''NatGateway'', 45/1000), (''VPN'', 5/100)]"

definition ALB_BASE :: rat where
  "ALB_BASE = 225/10000"

definition Route53_table :: "(string \<times> rat) list" where
  "Route53_table = [(''HostedZone'', 50/100), (''Queries'', 40/100)]"

text \<open>
  A table holding exactly these entries, all under the default region (whose regional
  multiplier is \<open>1.0\<close>).
\<close>

definition sample_pricing :: pricing_data where
  "sample_pricing =
     \<lparr>EC2 = map_of [(default_region, map_of (map (\<lambda>(k, v). (k, map_of v)) EC2_us_east_t2))],
      RDS = map_of [(default_region,
              map_of (map (\<lambda>(k, v). (k, map_of (map (\<lambda>(e, d). (e, map_of d)) v)))
                RDS_us_east_t3))],
      S3 = map_of [(default_region, map_of S3_BASE)],
      VPC = map_of [(default_region, map_of VPC_BASE)],
      ALB = map_of [(default_region, ALB_BASE)],
      Route53 = map_of Route53_table\<rparr>"

text \<open>
  The same table with one more region, whose only EC2 and RDS entries are present and
  priced \<open>0\<close>.
\<close>

definition zero_entry_pricing :: pricing_data where
  "zero_entry_pricing =
     sample_pricing\<lparr>
       EC2 := (EC2 sample_pricing)(''EU (Ireland)'' \<mapsto> [''t2.micro'' \<mapsto> [''Linux'' \<mapsto> 0]]),
       RDS := (RDS sample_pricing)(''EU (Ireland)'' \<mapsto>
                [''db.t3.micro'' \<mapsto> [''MySQL'' \<mapsto> [''Single-AZ'' \<mapsto> 0]]])\<rparr>"

text \<open>
  The table entry under a full selector, \<open>None\<close> when a level of the table lacks its
  key: what "the (region, selector-key) entry is present" means for EC2 and RDS.
\<close>

definition ec2_entry :: "pricing_data \<Rightarrow> string \<Rightarrow> string \<Rightarrow> string \<Rightarrow> rat option" where
  "ec2_entry pd region instance_type os =
     (case EC2 pd region of
        None \<Rightarrow> None
      | Some region_pricing \<Rightarrow>
          (case region_pricing instance_type of
             None \<Rightarrow> None
           | Some instance_pricing \<Rightarrow> instance_pricing os))"

definition rds_entry ::
  "pricing_data \<Rightarrow> string \<Rightarrow> string \<Rightarrow> string \<Rightarrow> string \<Rightarrow> rat option" where
  "rds_entry pd region instance_type engine deployment =
     (case RDS pd region of
        None \<Rightarrow> None
      | Some region_pricing \<Rightarrow>
          (case region_pricing instance_type of
             None \<Rightarrow> None
           | Some instance_pricing \<Rightarrow>
               (case instance_pricing engine of
                  None \<Rightarrow> None
                | Some engine_pricing \<Rightarrow> engine_pricing deployment)))"

text \<open>
  The lookup policy in words: the exact entry when it is present and not zero; otherwise
  the default region's entry when that is present; otherwise zero.
\<close>

definition lookup_policy :: "rat option \<Rightarrow> rat option \<Rightarrow> rat" where
  "lookup_policy exact fallback =
     (let retry = (case fallback of None \<Rightarrow> 0 | Some q \<Rightarrow> q)
      in case exact of None \<Rightarrow> retry | Some p \<Rightarrow> if p = 0 then retry else p)"

subsection \<open>Price records\<close>

text \<open>
  The dictionaries the resolver returns: a product with its list of prices. A key the
  source does not set is \<open>None\<close>.
\<close>

record price_entry =
  amount :: rat
  unit :: string
  description :: "string option"
  monthly_cost :: "rat option"

record product =
  service :: "string option"
  instanceType :: "string option"
  storageClass :: "string option"
  productFamily :: "string option"
  volumeType :: "string option"
  description :: "string option"
  location :: "string option"
  vcpu :: "string option"
  memory :: "string option"
  storage :: "string option"
  networkPerformance :: "string option"
  storageGB :: "rat option"
  quantity :: "int option"
  prices :: "price_entry list"

definition empty_product :: product where
  "empty_product =
     \<lparr>service = None, instanceType = None, storageClass = None, productFamily = None,
      volumeType = None, description = None, location = None, vcpu = None, memory = None,
      storage = None, networkPerformance = None, storageGB = None, quantity = None,
      prices = []\<rparr>"

subsection \<open>The resolver: \<open>LivePricingScraper\<close>\<close>

definition get_instance_vcpu :: "string \<Rightarrow> string" where
  "get_instance_vcpu instance_type =
     (if str_in ''nano'' instance_type then ''1''
      else if str_in ''micro'' instance_type then ''1-2''
      else if str_in ''small'' instance_type then ''1-2''
      else if str_in ''medium'' instance_type then ''2''
      else if str_in ''large'' instance_type \<and> \<not> str_in ''xlarge'' instance_type then ''2''
      else if str_in ''xlarge'' instance_type
        then str_of_nat (2 * (count_list instance_type CHR ''x'' + 1))
      else ''N/A'')"

definition get_instance_memory :: "string \<Rightarrow> string" where
  "get_instance_memory instance_type =
     (if str_in ''micro'' instance_type then ''1 GiB''
      else if str_in ''small'' instance_type then ''2 GiB''
      else if str_in ''medium'' instance_type then ''4 GiB''
      else if str_in ''large'' instance_type \<and> \<not> str_in ''xlarge'' instance_type then ''8 GiB''
      else if str_in ''xlarge'' instance_type then ''16+ GiB''
      else ''N/A'')"

definition get_network_performance :: "string \<Rightarrow> string" where
  "get_network_performance instance_type =
     (if prefix ''t'' instance_type then ''Low to Moderate''
      else if prefix ''c'' instance_type then ''High''
      else if prefix ''r'' instance_type then ''High''
      else ''Moderate'')"

text \<open>
  The price \<open>find_ec2_pricing\<close> settles on: the entry of the requested region, \<open>0\<close> when a
  level of the table is missing; on \<open>0\<close>, the entry of the default region.
\<close>

definition ec2_hourly_price :: "pricing_data \<Rightarrow> string \<Rightarrow> string \<Rightarrow> string \<Rightarrow> rat" where
  "ec2_hourly_price pd instance_type region os =
     (let region_pricing = dict_get (EC2 pd) region Map.empty;
          instance_pricing = dict_get region_pricing instance_type Map.empty;
          hourly_price = dict_get instance_pricing os 0
      in if hourly_price = 0
         then (let us_pricing = dict_get (EC2 pd) default_region Map.empty
               in dict_get (dict_get us_pricing instance_type Map.empty) os 0)
         else hourly_price)"

definition find_ec2_pricing :: "pricing_data \<Rightarrow> string \<Rightarrow> string \<Rightarrow> string \<Rightarrow> product list" where
  "find_ec2_pricing pd instance_type region os =
     [empty_product\<lparr>
        instanceType := Some instance_type,
        location := Some region,
        vcpu := Some (get_instance_vcpu instance_type),
        memory := Some (get_instance_memory instance_type),
        storage := Some ''EBS only'',
        networkPerformance := Some (get_network_performance instance_type),
        prices := [\<lparr>amount = ec2_hourly_price pd instance_type region os,
                    unit = ''Hrs'',
                    description = Some (instance_type @ '' '' @ os @ '' on-demand''),
                    monthly_cost = None\<rparr>]\<rparr>]"

definition rds_hourly_price ::
  "pricing_data \<Rightarrow> string \<Rightarrow> string \<Rightarrow> string \<Rightarrow> string \<Rightarrow> rat" where
  "rds_hourly_price pd instance_type region engine deployment =
     (let region_pricing = dict_get (RDS pd) region Map.empty;
          instance_pricing = dict_get region_pricing instance_type Map.empty;
          engine_pricing = dict_get instance_pricing engine Map.empty;
          hourly_price = dict_get engine_pricing deployment 0
      in if hourly_price = 0
         then (let us_pricing = dict_get (RDS pd) default_region Map.empty
               in dict_get (dict_get (dict_get us_pricing instance_type Map.empty)
                    engine Map.empty) deployment 0)
         else hourly_price)"

definition find_rds_pricing ::
  "pricing_data \<Rightarrow> string \<Rightarrow> string \<Rightarrow> string \<Rightarrow> string \<Rightarrow> product list" where
  "find_rds_pricing pd instance_type region engine deployment =
     [empty_product\<lparr>
        instanceType := Some instance_type,
        location := Some region,
        vcpu := Some (get_instance_vcpu (str_remove ''db.'' instance_type)),
        memory := Some (get_instance_memory (str_remove ''db.'' instance_type)),
        storage := Some ''EBS'',
        networkPerformance := Some ''Moderate'',
        prices := [\<lparr>amount = rds_hourly_price pd instance_type region engine deployment,
                    unit = ''Hrs'',
                    description = Some (instance_type @ '' '' @ engine @ '' '' @ deployment),
                    monthly_cost = None\<rparr>]\<rparr>]"





subsection \<open>The pricing client: \<open>AWSPricingClient\<close> in static-table mode\<close>







subsection \<open>The normaliser\<close>





subsection \<open>Requests, responses and the pricing handlers of \<open>app.py\<close>\<close>

text \<open>
  The JSON body of a request: a selector is a string when present; a numeric field is
  whatever JSON value the client sent.
\<close>

record request_data =
  instanceType :: "string option"
  region :: "string option"
  operatingSystem :: "string option"
  tenancy :: "string option"
  databaseEngine :: "string option"
  deploymentOption :: "string option"
  storageClass :: "string option"
  component :: "string option"
  service :: "string option"
  resourceType :: "string option"
  specifications :: "string option"
  storageGB :: "json option"
  quantity :: "json option"
  hourlyCost :: "json option"
  monthlyCost :: "json option"

definition empty_request :: request_data where
  "empty_request =
     \<lparr>instanceType = None, region = None, operatingSystem = None, tenancy = None,
      databaseEngine = None, deploymentOption = None, storageClass = None,
      component = None, service = None, resourceType = None, specifications = None,
      storageGB = None, quantity = None, hourlyCost = None, monthlyCost = None\<rparr>"

text \<open>\<open>data.get(key, default)\<close> on the body.\<close>

definition get_or :: "'a option \<Rightarrow> 'a \<Rightarrow> 'a" where
  "get_or field dflt = (case field of None \<Rightarrow> dflt | Some v \<Rightarrow> v)"

record cart_item =
  id :: string
  service :: "string option"
  resourceType :: "string option"
  specifications :: "string option"
  region :: "string option"
  quantity :: json
  hourlyCost :: rat
  monthlyCost :: rat

text \<open>
  A cell handed to \<open>csv.writer\<close>, by how the source renders it: a string, a value that
  may be \<open>None\<close> (written as the empty field), a raw JSON value, a count, an hourly rate
  (\<open>f'${x:.4f}/hr'\<close>) and an amount of money (\<open>f'${x:,.2f}'\<close>). A row is the list given
  to one \<open>writer.writerow\<close>.
\<close>

datatype cell = Text string | Opt "string option" | Json json | Count nat
  | Hourly rat | Money rat

type_synonym row = "cell list"

datatype failure = Not_initialized | Raised py_error

text \<open>
  The responses. \<open>Failure\<close> is the envelope \<open>{success: False, error: ...}\<close> with its
  HTTP status; \<open>Csv_attachment\<close> is the CSV document; every other constructor is a JSON
  body with \<open>success: True\<close>.
\<close>

datatype response =
    Pricing_success "product list" nat
  | Cart_success string nat
  | Clear_success string
  | Total_success rat nat
  | Csv_attachment "row list"
  | Failure failure nat

fun success :: "response \<Rightarrow> bool" where
  "success (Failure e st) = False"
| "success r = True"







subsection \<open>The cart handlers of \<open>app.py\<close>\<close>

text \<open>
  The session holds the cart under the key \<open>cart\<close>; \<open>None\<close> is a session without that
  key. Every cart handler but \<open>clear_cart\<close> first stores an empty cart in such a session.
\<close>

record session =
  cart :: "cart_item list option"

definition cart_of :: "session \<Rightarrow> cart_item list" where
  "cart_of s = (case cart s of None \<Rightarrow> [] | Some c \<Rightarrow> c)"

text \<open>\<open>new_id\<close> is the token \<open>str(uuid.uuid4())\<close> drawn for the item.\<close>

definition add_to_cart ::
  "(string \<Rightarrow> rat option) \<Rightarrow> string \<Rightarrow> session \<Rightarrow> request_data \<Rightarrow> session \<times> response" where
  "add_to_cart parse new_id s data =
     (let s1 = s\<lparr>cart := Some (cart_of s)\<rparr>
      in case py_float parse (get_or (request_data.hourlyCost data) (JInt 0)) of
           Inl e \<Rightarrow> (s1, Failure (Raised e) 500)
         | Inr hourly \<Rightarrow>
             (case py_float parse (get_or (request_data.monthlyCost data) (JInt 0)) of
                Inl e \<Rightarrow> (s1, Failure (Raised e) 500)
              | Inr monthly \<Rightarrow>
                  (let cart_item =
                         \<lparr>id = new_id,
                          service = request_data.service data,
                          resourceType = request_data.resourceType data,
                          specifications = request_data.specifications data,
                          region = request_data.region data,
                          quantity = get_or (request_data.quantity data) (JInt 1),
                          hourlyCost = hourly,
                          monthlyCost = monthly\<rparr>;
                       items = cart_of s1 @ [cart_item]
                   in (s1\<lparr>cart := Some items\<rparr>,
                       Cart_success ''Item added to cart'' (length items)))))"

definition remove_from_cart :: "session \<Rightarrow> string \<Rightarrow> session \<times> response" where
  "remove_from_cart s item_id =
     (let items = [item \<leftarrow> cart_of s. id item \<noteq> item_id]
      in (s\<lparr>cart := Some items\<rparr>, Cart_success ''Item removed from cart'' (length items)))"



subsection \<open>The report: \<open>generate_csv_report\<close>\<close>

definition dashes :: "nat \<Rightarrow> cell" where
  "dashes n = Text (replicate n CHR ''-'')"

definition header_rows :: "string \<Rightarrow> nat \<Rightarrow> row list" where
  "header_rows now n =
     [[Text ''AWS COST ESTIMATE REPORT''],
      [Text ''Generated'', Text now],
      [Text ''Total Resources'', Count n],
      [],
      [Text ''RESOURCE BREAKDOWN''],
      [],
      [Text ''Service'', Text ''Resource'', Text ''Specifications'', Text ''Region'',
       Text ''Qty'', Text ''Hourly Rate'', Text ''Monthly Cost'', Text ''Annual Cost''],
      [dashes 15, dashes 20, dashes 40, dashes 25, dashes 5, dashes 12, dashes 15,
       dashes 15]]"

text \<open>
  The row of one cart item. Every item of the cart holds all eight keys, so the
  defaults of the source's \<open>item.get(key, default)\<close> are never taken: a field stored as
  \<open>None\<close> is read as \<open>None\<close>.
\<close>

definition item_row :: "cart_item \<Rightarrow> row" where
  "item_row item =
     (let monthly_cost = monthlyCost item; annual_cost = monthly_cost * 12
      in [Opt (cart_item.service item), Opt (cart_item.resourceType item),
          Opt (cart_item.specifications item), Opt (cart_item.region item),
          Json (cart_item.quantity item), Hourly (hourlyCost item),
          Money monthly_cost, Money annual_cost])"

definition summary_rows :: "rat \<Rightarrow> row list" where
  "summary_rows total_cost =
     [[],
      [Text ''COST SUMMARY''],
      [],
      [Text ''Period'', Text ''Total Cost''],
      [dashes 20, dashes 20],
      [Text ''Monthly'', Money total_cost],
      [Text ''Annual'', Money (total_cost * 12)],
      []]"

definition service_header_rows :: "row list" where
  "service_header_rows =
     [[Text ''COST BY SERVICE''],
      [],
      [Text ''Service'', Text ''Resources'', Text ''Monthly Cost'', Text ''Annual Cost''],
      [dashes 15, dashes 12, dashes 15, dashes 15]]"

definition region_header_rows :: "row list" where
  "region_header_rows =
     [[],
      [Text ''COST BY REGION''],
      [],
      [Text ''Region'', Text ''Resources'', Text ''Monthly Cost'', Text ''Annual Cost''],
      [dashes 30, dashes 12, dashes 15, dashes 15]]"

definition notes_rows :: "row list" where
  "notes_rows =
     [[],
      [Text ''IMPORTANT NOTES''],
      [],
      [Text ''1. Pricing Basis'',
       Text ''On-Demand pricing (no reservations or savings plans)''],
      [Text ''2. Monthly Hours'',
       Text (''730 hours (365 days '' @ [CHR 0xC3, CHR 0xB7] @ '' 12 months ''
             @ [CHR 0xC3, CHR 0x97] @ '' 24 hours)'')],
      [Text ''3. Currency'', Text ''USD (United States Dollars)''],
      [Text ''4. Exclusions'',
       Text ''Data transfer, requests, and additional service-specific charges''],
      [Text ''5. Accuracy'',
       Text ''Estimates based on official AWS pricing as of January 2026''],
      [Text ''6. Actual Costs'',
       Text ''May vary based on usage patterns, reserved instances, and volume discounts''],
      [],
      [Text ''Report generated by AWS Cost Calculator''],
      [Text (''For the most accurate pricing, please consult the official AWS Pricing ''
             @ ''Calculator'')],
      [Text ''https://calculator.aws/'']]"

text \<open>
  The grouping loops. The source keeps two dictionaries with the same keys, the costs and
  the counts; here one insertion-ordered association list holds both under each key.
\<close>

type_synonym groups = "(string option \<times> rat \<times> nat) list"

fun group_update :: "string option \<Rightarrow> rat \<Rightarrow> groups \<Rightarrow> groups" where
  "group_update k m [] = [(k, 0 + m, 0 + 1)]"
| "group_update k m ((k', c, n) # g) =
     (if k = k' then (k', c + m, n + 1) # g else (k', c, n) # group_update k m g)"

definition group_by :: "(cart_item \<Rightarrow> string option) \<Rightarrow> cart_item list \<Rightarrow> groups" where
  "group_by key cart_items =
     foldl (\<lambda>g item. group_update (key item) (monthlyCost item) g) [] cart_items"

text \<open>
  \<open>sorted(keys)\<close> on the keys of a dictionary, which are distinct: strings compare by
  code point; a comparison of \<open>None\<close> with a string raises \<open>TypeError\<close>, and with two
  keys or more a \<open>None\<close> key is compared with a string.
\<close>

definition py_sorted :: "string option list \<Rightarrow> py_error + string option list" where
  "py_sorted ks =
     (if length ks \<le> 1 then Inr ks
      else if None \<in> set ks then Inl TypeError
      else Inr (map Some (sort (List.map_filter (\<lambda>k. k) ks))))"

definition group_row :: "groups \<Rightarrow> string option \<Rightarrow> row" where
  "group_row g k =
     (let (monthly, n) = dict_get (map_of g) k (0, 0); annual = monthly * 12
      in [Opt k, Count n, Money monthly, Money annual])"

definition group_rows ::
  "(cart_item \<Rightarrow> string option) \<Rightarrow> cart_item list \<Rightarrow> py_error + row list" where
  "group_rows key cart_items =
     (let g = group_by key cart_items
      in case py_sorted (map fst g) of
           Inl e \<Rightarrow> Inl e
         | Inr ks \<Rightarrow> Inr (map (group_row g) ks))"

text \<open>\<open>now\<close> is the timestamp \<open>datetime.now().strftime(...)\<close>.\<close>

definition generate_csv_report :: "string \<Rightarrow> cart_item list \<Rightarrow> rat \<Rightarrow> py_error + row list" where
  "generate_csv_report now cart_items total_cost =
     (case group_rows cart_item.service cart_items of
        Inl e \<Rightarrow> Inl e
      | Inr service_rows \<Rightarrow>
          (case group_rows cart_item.region cart_items of
             Inl e \<Rightarrow> Inl e
           | Inr region_rows \<Rightarrow>
               Inr (header_rows now (length cart_items)
                    @ map item_row cart_items
                    @ summary_rows total_cost
                    @ service_header_rows @ service_rows
                    @ region_header_rows @ region_rows
                    @ notes_rows)))"

definition export_csv :: "string \<Rightarrow> session \<Rightarrow> session \<times> response" where
  "export_csv now s =
     (let s1 = s\<lparr>cart := Some (cart_of s)\<rparr>;
          total = sum_list (map monthlyCost (cart_of s1))
      in case generate_csv_report now (cart_of s1) total of
           Inl e \<Rightarrow> (s1, Failure (Raised e) 500)
         | Inr csv_content \<Rightarrow> (s1, Csv_attachment csv_content))"

subsection \<open>Sequences of requests and sample data\<close>


text \<open>A sequence of add-to-cart requests, each with the token drawn for it.\<close>

fun add_all ::
  "(string \<Rightarrow> rat option) \<Rightarrow> session \<Rightarrow> (string \<times> request_data) list \<Rightarrow> session" where
  "add_all parse s [] = s"
| "add_all parse s ((new_id, data) # rest) =
     add_all parse (fst (add_to_cart parse new_id s data)) rest"

text \<open>The three items the repository's \<open>test_app.py\<close> adds to the cart.\<close>

definition test_requests :: "(string \<times> request_data) list" where
  "test_requests =
     [(''id-1'', empty_request\<lparr>
         request_data.service := Some ''EC2'',
         request_data.resourceType := Some ''t2.micro'',
         request_data.specifications := Some ''1 vCPU, 1GB RAM, Linux'',
         request_data.region := Some ''US East (N. Virginia)'',
         request_data.quantity := Some (JInt 1),
         request_data.hourlyCost := Some (JFloat (116/10000)),
         request_data.monthlyCost := Some (JFloat (8468/1000))\<rparr>),
      (''id-2'', empty_request\<lparr>
         request_data.service := Some ''RDS'',
         request_data.resourceType := Some ''db.t3.micro'',
         request_data.specifications := Some ''MySQL, Single-AZ'',
         request_data.region := Some ''US East (N. Virginia)'',
         request_data.quantity := Some (JInt 1),
         request_data.hourlyCost := Some (JFloat (17/1000)),
         request_data.monthlyCost := Some (JFloat (1241/100))\<rparr>),
      (''id-3'', empty_request\<lparr>
         request_data.service := Some ''S3'',
         request_data.resourceType := Some ''Storage'',
         request_data.specifications := Some ''100 GB, Standard'',
         request_data.region := Some ''US East (N. Virginia)'',
         request_data.quantity := Some (JInt 1),
         request_data.hourlyCost := Some (JFloat (3/1000)),
         request_data.monthlyCost := Some (JFloat (230/100))\<rparr>)]"

definition test_session :: session where
  "test_session = add_all Map.empty \<lparr>cart = None\<rparr> test_requests"

text \<open>
  A cart built by two add-to-cart requests, the first without a \<open>service\<close> field, the
  second for EC2.
\<close>

definition no_service_requests :: "(string \<times> request_data) list" where
  "no_service_requests =
     [(''id-1'', empty_request\<lparr>
         request_data.region := Some ''US East (N. Virginia)'',
         request_data.monthlyCost := Some (JFloat (230/100))\<rparr>),
      (''id-2'', empty_request\<lparr>
         request_data.service := Some ''EC2'',
         request_data.region := Some ''US East (N. Virginia)'',
         request_data.monthlyCost := Some (JFloat (8468/1000))\<rparr>)]"

definition no_service_session :: session where
  "no_service_session = add_all Map.empty \<lparr>cart = None\<rparr> no_service_requests"

section \<open>Properties\<close>

subsection \<open>Auxiliary facts\<close>

lemma cart_of_update [simp]: "cart_of (s\<lparr>cart := Some c\<rparr>) = c"
  by (simp add: cart_of_def)

lemma count_list_filter:
  "count_list [x \<leftarrow> xs. P x] y = (if P y then count_list xs y else 0)"
  by (induction xs) auto

lemma py_round2_zero [simp]: "py_round2 0 = 0"
  by (simp add: py_round2_def)



lemma test_session_cart:
  "cart_of test_session =
     [\<lparr>id = ''id-1'', service = Some ''EC2'', resourceType = Some ''t2.micro'',
       specifications = Some ''1 vCPU, 1GB RAM, Linux'',
       region = Some ''US East (N. Virginia)'', quantity = JInt 1,
       hourlyCost = 116/10000, monthlyCost = 8468/1000\<rparr>,
      \<lparr>id = ''id-2'', service = Some ''RDS'', resourceType = Some ''db.t3.micro'',
       specifications = Some ''MySQL, Single-AZ'',
       region = Some ''US East (N. Virginia)'', quantity = JInt 1,
       hourlyCost = 17/1000, monthlyCost = 1241/100\<rparr>,
      \<lparr>id = ''id-3'', service = Some ''S3'', resourceType = Some ''Storage'',
       specifications = Some ''100 GB, Standard'',
       region = Some ''US East (N. Virginia)'', quantity = JInt 1,
       hourlyCost = 3/1000, monthlyCost = 230/100\<rparr>]"
  by (simp add: test_session_def test_requests_def add_to_cart_def empty_request_def
      get_or_def Let_def cart_of_def)


lemma ec2_hourly_price_policy:
  "ec2_hourly_price pd itype reg os
     = lookup_policy (ec2_entry pd reg itype os) (ec2_entry pd default_region itype os)"
  by (simp add: ec2_hourly_price_def lookup_policy_def ec2_entry_def dict_get_def Let_def
      split: option.splits)

lemma rds_hourly_price_policy:
  "rds_hourly_price pd itype reg eng dep
     = lookup_policy (rds_entry pd reg itype eng dep) (rds_entry pd default_region itype eng dep)"
  by (simp add: rds_hourly_price_def lookup_policy_def rds_entry_def dict_get_def Let_def
      split: option.splits)

lemma prices_find_ec2_pricing:
  "map prices (find_ec2_pricing pd itype reg os)
     = [[\<lparr>amount = ec2_hourly_price pd itype reg os, unit = ''Hrs'',
         description = Some (itype @ '' '' @ os @ '' on-demand''), monthly_cost = None\<rparr>]]"
  by (simp add: find_ec2_pricing_def)

lemma prices_find_rds_pricing:
  "map prices (find_rds_pricing pd itype reg eng dep)
     = [[\<lparr>amount = rds_hourly_price pd itype reg eng dep, unit = ''Hrs'',
         description = Some (itype @ '' '' @ eng @ '' '' @ dep), monthly_cost = None\<rparr>]]"
  by (simp add: find_rds_pricing_def)





lemma sample_ec2_entry:
  "ec2_entry sample_pricing default_region ''t2.micro'' ''Linux'' = Some (116/10000)"
  by (simp add: ec2_entry_def sample_pricing_def EC2_us_east_t2_def)

lemma zero_ec2_entries:
  "ec2_entry zero_entry_pricing ''EU (Ireland)'' ''t2.micro'' ''Linux'' = Some 0"
  "ec2_entry zero_entry_pricing default_region ''t2.micro'' ''Linux'' = Some (116/10000)"
  "ec2_entry sample_pricing ''EU (Ireland)'' ''t2.micro'' ''Linux'' = None"
  by (simp_all add: ec2_entry_def zero_entry_pricing_def sample_pricing_def EC2_us_east_t2_def
      default_region_def)

lemma zero_rds_entries:
  "rds_entry zero_entry_pricing ''EU (Ireland)'' ''db.t3.micro'' ''MySQL'' ''Single-AZ'' = Some 0"
  "rds_entry zero_entry_pricing default_region ''db.t3.micro'' ''MySQL'' ''Single-AZ'' = Some (17/1000)"
  "rds_entry sample_pricing ''EU (Ireland)'' ''db.t3.micro'' ''MySQL'' ''Single-AZ'' = None"
  "rds_entry sample_pricing default_region ''db.t3.micro'' ''MySQL'' ''Single-AZ'' = Some (17/1000)"
  by (simp_all add: rds_entry_def zero_entry_pricing_def sample_pricing_def RDS_us_east_t3_def
      default_region_def)

subsection \<open>The cart\<close>

text \<open>
  Claim C4. For every id, cart remove reports success whether or not an item with that
  id is in the cart, and a second removal of the same id changes nothing: it returns the
  same session and the same response as the first, so the cart size is unchanged. When
  no item has the id, the first removal already leaves the cart as it was.
\<close>

theorem remove_from_cart_idempotent:
  "success (snd (remove_from_cart s item_id))
   \<and> success (snd (remove_from_cart (fst (remove_from_cart s item_id)) item_id))
   \<and> remove_from_cart (fst (remove_from_cart s item_id)) item_id = remove_from_cart s item_id
   \<and> length (cart_of (fst (remove_from_cart (fst (remove_from_cart s item_id)) item_id)))
       = length (cart_of (fst (remove_from_cart s item_id)))
   \<and> (item_id \<notin> id ` set (cart_of s) \<longrightarrow>
        cart_of (fst (remove_from_cart s item_id)) = cart_of s)"
  by (auto simp: remove_from_cart_def Let_def filter_id_conv)

theorem remove_from_cart_idempotent_witness:
  "''invalid-id'' \<notin> id ` set (cart_of test_session)
   \<and> cart_of (fst (remove_from_cart test_session ''invalid-id'')) = cart_of test_session
   \<and> success (snd (remove_from_cart test_session ''invalid-id''))
   \<and> remove_from_cart (fst (remove_from_cart test_session ''id-2'')) ''id-2''
       = remove_from_cart test_session ''id-2''
   \<and> length (cart_of (fst (remove_from_cart test_session ''id-2''))) = 2"
  using remove_from_cart_idempotent [of test_session "''invalid-id''"]
    remove_from_cart_idempotent [of test_session "''id-2''"]
  by (simp add: test_session_cart remove_from_cart_def)

text \<open>
  Claim C10. Cart remove keeps exactly the items whose id differs from the given one,
  in their original order: no item with that id is left (all duplicates go), every other
  item occurs as often as before, the new cart is a subsequence of the old one, and the
  \<open>cartCount\<close> of the response is the length of the new cart.
\<close>

theorem remove_from_cart_frame:
  "cart_of (fst (remove_from_cart s item_id)) = [item \<leftarrow> cart_of s. id item \<noteq> item_id]
   \<and> (\<forall>item \<in> set (cart_of (fst (remove_from_cart s item_id))). id item \<noteq> item_id)
   \<and> (\<forall>item. id item \<noteq> item_id \<longrightarrow>
         count_list (cart_of (fst (remove_from_cart s item_id))) item = count_list (cart_of s) item)
   \<and> subseq (cart_of (fst (remove_from_cart s item_id))) (cart_of s)
   \<and> snd (remove_from_cart s item_id)
       = Cart_success ''Item removed from cart''
           (length (cart_of (fst (remove_from_cart s item_id))))"
  by (simp add: remove_from_cart_def Let_def count_list_filter)

theorem remove_from_cart_frame_witness:
  "map id (cart_of (fst (remove_from_cart test_session ''id-2''))) = [''id-1'', ''id-3'']
   \<and> subseq (cart_of (fst (remove_from_cart test_session ''id-2''))) (cart_of test_session)
   \<and> count_list (cart_of (fst (remove_from_cart test_session ''id-2''))) (cart_of test_session ! 2)
       = count_list (cart_of test_session) (cart_of test_session ! 2)
   \<and> snd (remove_from_cart test_session ''id-2'') = Cart_success ''Item removed from cart'' 2"
  using remove_from_cart_frame [of test_session "''id-2''"]
  by (simp add: test_session_cart)



subsection \<open>Normalisation\<close>





subsection \<open>Hourly services\<close>




subsection \<open>The lookup policy\<close>




text \<open>
  Claim C9. For EC2 and RDS the retry with the default region happens whenever the price
  found for the requested region is \<open>0\<close>, also when the entry is present and priced
  \<open>0\<close>: the result is then the default region's entry when there is one (\<open>0\<close>
  otherwise), and it is the very result a table without the entry gives.
\<close>

theorem zero_price_retries_default_region:
  "(ec2_entry pd reg itype os = Some 0 \<longrightarrow>
      map (map amount \<circ> prices) (find_ec2_pricing pd itype reg os)
        = [[case ec2_entry pd default_region itype os of None \<Rightarrow> 0 | Some q \<Rightarrow> q]])
   \<and> (ec2_entry pd reg itype os = Some 0 \<and> ec2_entry pd default_region itype os = Some q \<longrightarrow>
      map (map amount \<circ> prices) (find_ec2_pricing pd itype reg os) = [[q]])
   \<and> (ec2_entry pd reg itype os = Some 0 \<and> ec2_entry pd' reg itype os = None
        \<and> ec2_entry pd' default_region itype os = ec2_entry pd default_region itype os \<longrightarrow>
      find_ec2_pricing pd itype reg os = find_ec2_pricing pd' itype reg os)
   \<and> (rds_entry pd reg itype eng dep = Some 0 \<longrightarrow>
      map (map amount \<circ> prices) (find_rds_pricing pd itype reg eng dep)
        = [[case rds_entry pd default_region itype eng dep of None \<Rightarrow> 0 | Some q \<Rightarrow> q]])
   \<and> (rds_entry pd reg itype eng dep = Some 0
        \<and> rds_entry pd default_region itype eng dep = Some q \<longrightarrow>
      map (map amount \<circ> prices) (find_rds_pricing pd itype reg eng dep) = [[q]])
   \<and> (rds_entry pd reg itype eng dep = Some 0 \<and> rds_entry pd' reg itype eng dep = None
        \<and> rds_entry pd' default_region itype eng dep = rds_entry pd default_region itype eng dep
        \<longrightarrow>
      find_rds_pricing pd itype reg eng dep = find_rds_pricing pd' itype reg eng dep)"
proof -
  have mm: "map (map amount \<circ> prices) ps = map (map amount) (map prices ps)"
    for ps :: "product list"
    by simp
  show ?thesis
    unfolding mm prices_find_ec2_pricing prices_find_rds_pricing
    by (simp add: find_ec2_pricing_def find_rds_pricing_def ec2_hourly_price_policy
        rds_hourly_price_policy lookup_policy_def)
qed

theorem zero_price_retries_default_region_witness:
  "ec2_entry zero_entry_pricing ''EU (Ireland)'' ''t2.micro'' ''Linux'' = Some 0
   \<and> ec2_entry sample_pricing ''EU (Ireland)'' ''t2.micro'' ''Linux'' = None
   \<and> find_ec2_pricing zero_entry_pricing ''t2.micro'' ''EU (Ireland)'' ''Linux''
       = find_ec2_pricing sample_pricing ''t2.micro'' ''EU (Ireland)'' ''Linux''
   \<and> map (map amount \<circ> prices)
        (find_ec2_pricing zero_entry_pricing ''t2.micro'' ''EU (Ireland)'' ''Linux'')
       = [[116/10000]]
   \<and> rds_entry zero_entry_pricing ''EU (Ireland)'' ''db.t3.micro'' ''MySQL'' ''Single-AZ'' = Some 0
   \<and> find_rds_pricing zero_entry_pricing ''db.t3.micro'' ''EU (Ireland)'' ''MySQL'' ''Single-AZ''
       = find_rds_pricing sample_pricing ''db.t3.micro'' ''EU (Ireland)'' ''MySQL'' ''Single-AZ''
   \<and> map (map amount \<circ> prices)
        (find_rds_pricing zero_entry_pricing ''db.t3.micro'' ''EU (Ireland)'' ''MySQL'' ''Single-AZ'')
       = [[17/1000]]"
proof -
  have e: "ec2_entry sample_pricing default_region ''t2.micro'' ''Linux''
            = ec2_entry zero_entry_pricing default_region ''t2.micro'' ''Linux''"
    by (simp add: zero_ec2_entries sample_ec2_entry)
  have r: "rds_entry sample_pricing default_region ''db.t3.micro'' ''MySQL'' ''Single-AZ''
            = rds_entry zero_entry_pricing default_region ''db.t3.micro'' ''MySQL'' ''Single-AZ''"
    by (simp add: zero_rds_entries)
  note i1 = zero_price_retries_default_region [of zero_entry_pricing "''EU (Ireland)''"
      "''t2.micro''" "''Linux''" "116/10000" sample_pricing "''MySQL''" "''Single-AZ''"]
  note i2 = zero_price_retries_default_region [of zero_entry_pricing "''EU (Ireland)''"
      "''db.t3.micro''" "''Linux''" "17/1000" sample_pricing "''MySQL''" "''Single-AZ''"]
  have a1: "find_ec2_pricing zero_entry_pricing ''t2.micro'' ''EU (Ireland)'' ''Linux''
       = find_ec2_pricing sample_pricing ''t2.micro'' ''EU (Ireland)'' ''Linux''"
    using i1 e by (simp add: zero_ec2_entries)
  have a2: "map (map amount \<circ> prices)
        (find_ec2_pricing zero_entry_pricing ''t2.micro'' ''EU (Ireland)'' ''Linux'')
       = [[116/10000]]"
    using i1 by (simp add: zero_ec2_entries(1,2))
  have a3: "find_rds_pricing zero_entry_pricing ''db.t3.micro'' ''EU (Ireland)'' ''MySQL'' ''Single-AZ''
       = find_rds_pricing sample_pricing ''db.t3.micro'' ''EU (Ireland)'' ''MySQL'' ''Single-AZ''"
    using i2 r by (simp add: zero_rds_entries)
  have a4: "map (map amount \<circ> prices)
        (find_rds_pricing zero_entry_pricing ''db.t3.micro'' ''EU (Ireland)'' ''MySQL'' ''Single-AZ'')
       = [[17/1000]]"
    using i2 by (simp add: zero_rds_entries(1,2))
  show ?thesis
    by (intro conjI a1 a2 a3 a4 zero_ec2_entries(1) zero_ec2_entries(3) zero_rds_entries(1))
qed

subsection \<open>Numeric fields of a request\<close>




subsection \<open>The report\<close>

lemma keys_group_update:
  "map fst (group_update k m g) = (if k \<in> fst ` set g then map fst g else map fst g @ [k])"
  by (induction g) (force simp: image_iff)+

lemma keys_foldl_group_update:
  "set (map fst (foldl (\<lambda>g item. group_update (key item) (cost item) g) g0 items))
     = fst ` set g0 \<union> key ` set items
   \<and> (distinct (map fst g0) \<longrightarrow>
        distinct (map fst (foldl (\<lambda>g item. group_update (key item) (cost item) g) g0 items)))"
proof (induction items arbitrary: g0)
  case Nil
  then show ?case by simp
next
  case (Cons item items)
  have s: "set (map fst (group_update (key item) (cost item) g0)) = insert (key item) (fst ` set g0)"
    by (auto simp: keys_group_update)
  have d: "distinct (map fst g0) \<Longrightarrow> distinct (map fst (group_update (key item) (cost item) g0))"
    by (auto simp: keys_group_update)
  from Cons.IH [of "group_update (key item) (cost item) g0"] s d
  show ?case by auto
qed

lemma keys_group_by:
  "set (map fst (group_by key items)) = key ` set items"
  "distinct (map fst (group_by key items))"
  using keys_foldl_group_update [of key monthlyCost "[]" items]
  by (simp_all add: group_by_def)

lemma map_filter_Some: "List.map_filter (\<lambda>k. k) (map Some xs) = xs"
  by (induction xs) simp_all

lemma no_None_map_Some: "None \<notin> set ks \<Longrightarrow> \<exists>xs. ks = map Some xs"
proof (induction ks)
  case Nil
  then show ?case by simp
next
  case (Cons k ks)
  from Cons obtain xs where "ks = map Some xs" by auto
  moreover from Cons.prems obtain x where "k = Some x" by (cases k) auto
  ultimately
  have "k # ks = map Some (x # xs)" by simp
  then show ?case by (rule exI)
qed

lemma py_sorted_strings:
  assumes "None \<notin> set ks" "distinct ks"
  shows "py_sorted ks = Inr (map Some (sorted_list_of_set {s. Some s \<in> set ks}))"
proof -
  from assms(1) obtain xs where xs: "ks = map Some xs"
    using no_None_map_Some by blast
  with assms(2) have dx: "distinct xs"
    by (simp add: distinct_map)
  have set: "{s. Some s \<in> set ks} = set xs"
    unfolding xs by auto
  have sort: "sort xs = sorted_list_of_set (set xs)"
    using dx by (simp add: sorted_list_of_set_sort_remdups distinct_remdups_id)
  show ?thesis
  proof (cases "length ks \<le> 1")
    case True
    then have "xs = [] \<or> (\<exists>x. xs = [x])"
      unfolding xs by (cases xs) auto
    then show ?thesis
      unfolding xs by (auto simp: py_sorted_def)
  next
    case False
    then show ?thesis
      using assms(1) unfolding set sort [symmetric]
      by (simp add: py_sorted_def xs map_filter_Some)
  qed
qed

lemma hd_group_row: "hd (group_row g k) = Opt k"
  by (simp add: group_row_def split_def Let_def)

lemma group_rows_strings:
  assumes "\<forall>item \<in> set items. key item \<noteq> None"
  shows "\<exists>rows. group_rows key items = Inr rows
           \<and> map hd rows = map (Opt \<circ> Some) (sorted_list_of_set {s. Some s \<in> key ` set items})
           \<and> length rows = card (key ` set items)"
proof -
  let ?g = "group_by key items"
  have n: "None \<notin> set (map fst ?g)"
    using assms unfolding keys_group_by(1) by force
  have "{s. Some s \<in> key ` set items} = Some -` (key ` set items)"
    by auto
  then have fin: "finite {s. Some s \<in> key ` set items}"
    by (simp add: finite_vimageI)
  have img: "key ` set items = Some ` {s. Some s \<in> key ` set items}"
    using assms by (auto simp: image_iff) metis
  have c: "card {s. Some s \<in> key ` set items} = card (key ` set items)"
    by (subst (2) img) (simp add: card_image)
  have ps: "py_sorted (map fst ?g) = Inr (map Some (sorted_list_of_set {s. Some s \<in> key ` set items}))"
    using py_sorted_strings [OF n keys_group_by(2)] unfolding keys_group_by(1) .
  show ?thesis
    using fin c
    by (simp add: group_rows_def Let_def ps hd_group_row comp_def)
qed

lemma no_service_session_cart:
  "cart_of no_service_session =
     [\<lparr>id = ''id-1'', service = None, resourceType = None, specifications = None,
       region = Some ''US East (N. Virginia)'', quantity = JInt 1,
       hourlyCost = 0, monthlyCost = 230/100\<rparr>,
      \<lparr>id = ''id-2'', service = Some ''EC2'', resourceType = None, specifications = None,
       region = Some ''US East (N. Virginia)'', quantity = JInt 1,
       hourlyCost = 0, monthlyCost = 8468/1000\<rparr>]"
  by (simp add: no_service_session_def no_service_requests_def add_to_cart_def empty_request_def
      get_or_def Let_def cart_of_def)

text \<open>
  When every item of the cart has a service and a region, the report is written: its
  itemised section has one row per item, in cart order; the service section has one row
  per distinct service and the region section one row per distinct region, each headed
  by its key, the keys in ascending lexicographic order.
\<close>

theorem csv_report_rows:
  "(\<forall>item \<in> set items. cart_item.service item \<noteq> None \<and> cart_item.region item \<noteq> None) \<longrightarrow>
   (\<exists>service_rows region_rows.
      generate_csv_report now items total_cost
        = Inr (header_rows now (length items)
               @ map item_row items
               @ summary_rows total_cost
               @ service_header_rows @ service_rows
               @ region_header_rows @ region_rows
               @ notes_rows)
      \<and> length (map item_row items) = length items
      \<and> length service_rows = card (cart_item.service ` set items)
      \<and> map hd service_rows
          = map (Opt \<circ> Some) (sorted_list_of_set {s. Some s \<in> cart_item.service ` set items})
      \<and> length region_rows = card (cart_item.region ` set items)
      \<and> map hd region_rows
          = map (Opt \<circ> Some) (sorted_list_of_set {s. Some s \<in> cart_item.region ` set items}))"
proof
  assume wf: "\<forall>item \<in> set items. cart_item.service item \<noteq> None \<and> cart_item.region item \<noteq> None"
  then have "\<forall>item \<in> set items. cart_item.service item \<noteq> None"
    by blast
  from group_rows_strings [OF this]
  obtain srows where s: "group_rows cart_item.service items = Inr srows"
    "map hd srows = map (Opt \<circ> Some) (sorted_list_of_set {s. Some s \<in> cart_item.service ` set items})"
    "length srows = card (cart_item.service ` set items)"
    by blast
  from wf have "\<forall>item \<in> set items. cart_item.region item \<noteq> None"
    by blast
  from group_rows_strings [OF this]
  obtain rrows where r: "group_rows cart_item.region items = Inr rrows"
    "map hd rrows = map (Opt \<circ> Some) (sorted_list_of_set {s. Some s \<in> cart_item.region ` set items})"
    "length rrows = card (cart_item.region ` set items)"
    by blast
  have "generate_csv_report now items total_cost
        = Inr (header_rows now (length items)
               @ map item_row items
               @ summary_rows total_cost
               @ service_header_rows @ srows
               @ region_header_rows @ rrows
               @ notes_rows)"
    by (simp add: generate_csv_report_def s(1) r(1))
  with s r show "\<exists>service_rows region_rows.
      generate_csv_report now items total_cost
        = Inr (header_rows now (length items)
               @ map item_row items
               @ summary_rows total_cost
               @ service_header_rows @ service_rows
               @ region_header_rows @ region_rows
               @ notes_rows)
      \<and> length (map item_row items) = length items
      \<and> length service_rows = card (cart_item.service ` set items)
      \<and> map hd service_rows
          = map (Opt \<circ> Some) (sorted_list_of_set {s. Some s \<in> cart_item.service ` set items})
      \<and> length region_rows = card (cart_item.region ` set items)
      \<and> map hd region_rows
          = map (Opt \<circ> Some) (sorted_list_of_set {s. Some s \<in> cart_item.region ` set items})"
    by (intro exI [of _ srows] exI [of _ rrows]) simp
qed

theorem csv_report_rows_witness:
  "\<exists>service_rows region_rows.
      generate_csv_report ''2026-01-15 10:00:00'' (rev (cart_of test_session)) (2318/100)
        = Inr (header_rows ''2026-01-15 10:00:00'' 3
               @ map item_row (rev (cart_of test_session))
               @ summary_rows (2318/100)
               @ service_header_rows @ service_rows
               @ region_header_rows @ region_rows
               @ notes_rows)
      \<and> map hd service_rows = [Opt (Some ''EC2''), Opt (Some ''RDS''), Opt (Some ''S3'')]
      \<and> map hd region_rows = [Opt (Some ''US East (N. Virginia)'')]"
proof -
  let ?items = "rev (cart_of test_session)"
  have wf: "\<forall>item \<in> set ?items. cart_item.service item \<noteq> None \<and> cart_item.region item \<noteq> None"
    by (simp add: test_session_cart)
  have s: "{s. Some s \<in> cart_item.service ` set ?items} = set [''S3'', ''RDS'', ''EC2'']"
    by (auto simp: test_session_cart)
  have r: "{s. Some s \<in> cart_item.region ` set ?items} = set [''US East (N. Virginia)'']"
    by (auto simp: test_session_cart)
  have so: "sorted_list_of_set (set [''S3'', ''RDS'', ''EC2'']) = [''EC2'', ''RDS'', ''S3'']"
    by code_simp
  have ro: "sorted_list_of_set (set [''US East (N. Virginia)'']) = [''US East (N. Virginia)'']"
    by simp
  have l: "length ?items = 3"
    by (simp add: test_session_cart)
  from csv_report_rows [of ?items "''2026-01-15 10:00:00''" "2318/100"] wf
  obtain srows rrows where
    "generate_csv_report ''2026-01-15 10:00:00'' ?items (2318/100)
        = Inr (header_rows ''2026-01-15 10:00:00'' 3
               @ map item_row ?items
               @ summary_rows (2318/100)
               @ service_header_rows @ srows
               @ region_header_rows @ rrows
               @ notes_rows)"
    "map hd srows = map (Opt \<circ> Some) [''EC2'', ''RDS'', ''S3'']"
    "map hd rrows = map (Opt \<circ> Some) [''US East (N. Virginia)'']"
    unfolding s r so ro l by blast
  then show ?thesis
    by (intro exI [of _ srows] exI [of _ rrows]) simp
qed

text \<open>
  Claim C8 at a cart the application builds from two add-to-cart requests, the first
  without a \<open>service\<close> field: the cart holds the services \<open>None\<close> and \<open>EC2\<close>, sorting
  the service keys raises \<open>TypeError\<close>, no report is rendered and the export answers with
  the failure envelope, where the claim asks for a report with two item rows and two
  service rows.
\<close>

theorem csv_export_fails_without_service:
  "map cart_item.service (cart_of no_service_session) = [None, Some ''EC2'']
   \<and> generate_csv_report now (cart_of no_service_session) total_cost = Inl TypeError
   \<and> snd (export_csv now no_service_session) = Failure (Raised TypeError) 500"
  by (simp add: no_service_session_cart export_csv_def generate_csv_report_def group_rows_def
      group_by_def py_sorted_def Let_def)

end
